theory Spec2Isabelle
  imports Main
begin

section \<open>Values exchanged with the HTTP layer\<close>

text \<open>
  A Python float: a finite one, kept as its literal since no handler computes on one, or
  one of the three values JSON has no literal for.
\<close>

datatype py_float = Finite string | NaN | Infinity | NegInfinity

text \<open>
  The Python values the handlers of \<^verbatim>\<open>backend/main.py\<close> receive, build and pass on. A
  dict (with string keys) is an association list in insertion order. \<open>PyObject cls\<close> is
  an object of a class \<^verbatim>\<open>json.dumps\<close> has no encoding for.
\<close>

datatype json =
    JNull
  | JBool bool
  | JInt int
  | JFloat py_float
  | JStr string
  | JList "json list"
  | JDict "(string \<times> json) list"
  | PyObject string

text \<open>
  Exceptions. \<open>HTTPException status_code detail\<close> is FastAPI's; \<open>PyError cls msg\<close> is
  any other subclass of \<^verbatim>\<open>Exception\<close>, with its class name and the text \<^verbatim>\<open>str(e)\<close>
  gives. Exceptions outside \<^verbatim>\<open>Exception\<close> (\<^verbatim>\<open>KeyboardInterrupt\<close>, \<^verbatim>\<open>SystemExit\<close>) are
  not modelled.
\<close>

datatype py_exception =
    HTTPException nat string
  | PyError string string

text \<open>
  A \<^verbatim>\<open>JSONResponse\<close> that has been built: its status code (200 unless given) and its
  content.
\<close>

datatype response = JSONResponse nat json

type_synonym 'a result = "py_exception + 'a"

text \<open>
  The file objects handed to the workflow service: FastAPI's \<^verbatim>\<open>UploadFile\<close> (file name
  and uploaded bytes) and the \<^verbatim>\<open>MockUploadFile\<close> class of \<^verbatim>\<open>upload_from_url\<close> (file name
  and the path its \<^verbatim>\<open>file\<close> attribute was opened on).
\<close>

datatype document =
    UploadFile string string
  | MockUploadFile string string

text \<open>A keyword argument of a call: left out, or passed with a value.\<close>

datatype 'a kwarg = Omitted | Passed 'a

text \<open>
  The keyword arguments of one call of \<^verbatim>\<open>workflow_service.start_workflow\<close>. An optional
  upload that is absent is Python's \<^verbatim>\<open>None\<close>.
\<close>

record start_workflow_call =
  workflow_id :: string
  workflow_name :: string
  wi_document :: document
  item_master :: "document option kwarg"
  comparison_mode :: string

section \<open>The environment of the handlers\<close>

text \<open>
  What the handlers use of Python and its libraries is a parameter of the model:
  \<^item> \<open>uuid4 k\<close> is the text of the \<open>k\<close>-th UUID the process draws (\<^verbatim>\<open>str(uuid.uuid4())\<close>);
  \<^item> \<open>open_rb p\<close> is \<open>None\<close> when \<^verbatim>\<open>open(p, 'rb')\<close> succeeds and the exception it raises
    otherwise;
  \<^item> \<open>str_http c d\<close> is \<^verbatim>\<open>str(HTTPException(status_code=c, detail=d))\<close>, which depends
    on the installed Starlette;
  \<^item> \<open>str_lower s\<close> is \<^verbatim>\<open>s.lower()\<close>, which follows the Unicode tables of the
    interpreter;
  \<^item> \<open>str_float_error f\<close> is the text of the \<^verbatim>\<open>ValueError\<close> that \<^verbatim>\<open>json.dumps\<close> raises
    for the float \<open>f\<close> when it is not finite, which depends on the Python version.

  \<^verbatim>\<open>WorkflowService\<close> and \<^verbatim>\<open>KnowledgeBaseService\<close> are imported from the package
  \<^verbatim>\<open>services\<close>, which is not among the sources. Each handler takes the methods it calls
  as arguments (\<open>ws_start_workflow\<close> for \<^verbatim>\<open>workflow_service.start_workflow\<close>, and so
  on): a method takes the state of its service and returns the new state, with the
  exception it raised, if any.
\<close>

record runtime =
  uuid4 :: "nat \<Rightarrow> string"
  open_rb :: "string \<Rightarrow> py_exception option"
  str_http :: "nat \<Rightarrow> string \<Rightarrow> string"
  str_lower :: "string \<Rightarrow> string"
  str_float_error :: "py_float \<Rightarrow> string"

text \<open>
  What a handler can change: the number of UUIDs drawn so far, the calls of
  \<^verbatim>\<open>start_workflow\<close> made so far (oldest first; a record of the calls, kept beside the
  service's own state) and the state of the workflow service.
\<close>

record 'w world =
  uuid_draws :: nat
  started :: "start_workflow_call list"
  service :: 'w

text \<open>\<^verbatim>\<open>str(e)\<close> for a caught exception.\<close>

fun str_exc :: "runtime \<Rightarrow> py_exception \<Rightarrow> string" where
  "str_exc R (HTTPException c d) = str_http R c d"
| "str_exc R (PyError cls msg) = msg"

text \<open>\<^verbatim>\<open>str(uuid.uuid4())\<close>: the next UUID, and one more draw counted.\<close>

definition new_uuid :: "runtime \<Rightarrow> 'w world \<Rightarrow> string \<times> 'w world" where
  "new_uuid R w = (uuid4 R (uuid_draws w), w\<lparr>uuid_draws := Suc (uuid_draws w)\<rparr>)"

text \<open>One call of \<^verbatim>\<open>workflow_service.start_workflow\<close>, recorded in \<open>started\<close>.\<close>

definition call_start_workflow ::
  "(start_workflow_call \<Rightarrow> 'w \<Rightarrow> py_exception option \<times> 'w) \<Rightarrow> start_workflow_call \<Rightarrow>
     'w world \<Rightarrow> py_exception option \<times> 'w world" where
  "call_start_workflow ws_start_workflow c w =
     (case ws_start_workflow c (service w) of
        (r, s') \<Rightarrow> (r, w\<lparr>started := started w @ [c], service := s'\<rparr>))"

section \<open>Single upload: \<^verbatim>\<open>POST /api/autonomous/upload\<close>\<close>

text \<open>
  The body of the \<^verbatim>\<open>try\<close> block of \<^verbatim>\<open>upload_documents\<close> (lines 174 to 195). An upload
  parameter is \<open>None\<close> when it is falsy in Python (\<^verbatim>\<open>not wi_document\<close>).
\<close>

definition upload_documents_try ::
  "runtime \<Rightarrow> (start_workflow_call \<Rightarrow> 'w \<Rightarrow> py_exception option \<times> 'w) \<Rightarrow>
     document option \<Rightarrow> string \<Rightarrow> document option \<Rightarrow> string \<Rightarrow>
     'w world \<Rightarrow> response result \<times> 'w world" where
  "upload_documents_try R ws_start_workflow wi_doc name master mode w =
     (case wi_doc of
        None \<Rightarrow> (Inl (HTTPException 400 ''WI document is required''), w)
      | Some doc \<Rightarrow>
          if mode = ''full'' \<and> master = None
          then (Inl (HTTPException 400 ''Item Master is required for full comparison mode''), w)
          else
            (case new_uuid R w of
               (wid, w1) \<Rightarrow>
                 (case call_start_workflow ws_start_workflow
                         \<lparr>workflow_id = wid, workflow_name = name, wi_document = doc,
                          item_master = Passed master, comparison_mode = mode\<rparr> w1 of
                    (Some e, w2) \<Rightarrow> (Inl e, w2)
                  | (None, w2) \<Rightarrow>
                      (Inr (JSONResponse 200 (JDict
                         [(''success'', JBool True),
                          (''workflow_id'', JStr wid),
                          (''message'', JStr ''Processing started successfully'')])), w2))))"

text \<open>
  \<^verbatim>\<open>upload_documents\<close> with its handlers (lines 196 to 199): an \<^verbatim>\<open>HTTPException\<close> is raised
  again as it is, any other exception becomes a 500.
\<close>

definition upload_documents ::
  "runtime \<Rightarrow> (start_workflow_call \<Rightarrow> 'w \<Rightarrow> py_exception option \<times> 'w) \<Rightarrow>
     document option \<Rightarrow> string \<Rightarrow> document option \<Rightarrow> string \<Rightarrow>
     'w world \<Rightarrow> response result \<times> 'w world" where
  "upload_documents R ws_start_workflow wi_doc name master mode w =
     (case upload_documents_try R ws_start_workflow wi_doc name master mode w of
        (Inl (HTTPException c d), w') \<Rightarrow> (Inl (HTTPException c d), w')
      | (Inl (PyError cls msg), w') \<Rightarrow>
          (Inl (HTTPException 500 (''Failed to start workflow: '' @ str_exc R (PyError cls msg))), w')
      | (Inr r, w') \<Rightarrow> (Inr r, w'))"

section \<open>Batch upload: \<^verbatim>\<open>POST /api/autonomous/upload_from_url\<close>\<close>

text \<open>The request body, \<^verbatim>\<open>URLUploadRequest\<close> (field \<^verbatim>\<open>workflow_name\<close> is \<open>request_name\<close>).\<close>

record URLUploadRequest =
  url :: string
  request_name :: string

text \<open>
  \<^verbatim>\<open>d[k]\<close> on a dict with string keys: \<^verbatim>\<open>KeyError\<close> on a missing key, whose text is the
  key in quotes.
\<close>

definition getitem :: "(string \<rightharpoonup> 'a) \<Rightarrow> string \<Rightarrow> 'a result" where
  "getitem d k =
     (case d k of
        None \<Rightarrow> Inl (PyError ''KeyError'' ([CHR 0x27] @ k @ [CHR 0x27]))
      | Some v \<Rightarrow> Inr v)"

text \<open>\<^verbatim>\<open>sub in s\<close>: \<open>sub\<close> occurs in \<open>s\<close> as a contiguous run.\<close>

fun contains :: "string \<Rightarrow> string \<Rightarrow> bool" where
  "contains sub [] = (sub = [])"
| "contains sub (c # cs) = (take (length sub) (c # cs) = sub \<or> contains sub cs)"

text \<open>\<^verbatim>\<open>str(n)\<close> for a natural number, as the f-string of line 244 formats it.\<close>

fun str_nat :: "nat \<Rightarrow> string" where
  "str_nat n =
     (if n < 10 then [''0123456789'' ! n]
      else str_nat (n div 10) @ [''0123456789'' ! (n mod 10)])"

declare str_nat.simps [simp del]

text \<open>
  \<^verbatim>\<open>MockUploadFile(file_info['filename'], file_info['path'])\<close> (line 227): both
  subscripts are evaluated, then the constructor opens the path.
\<close>

definition mock_upload_file :: "runtime \<Rightarrow> (string \<rightharpoonup> string) \<Rightarrow> document result" where
  "mock_upload_file R file_info =
     (case getitem file_info ''filename'' of
        Inl e \<Rightarrow> Inl e
      | Inr fname \<Rightarrow>
          (case getitem file_info ''path'' of
             Inl e \<Rightarrow> Inl e
           | Inr file_path \<Rightarrow>
               (case open_rb R file_path of
                  Some e \<Rightarrow> Inl e
                | None \<Rightarrow> Inr (MockUploadFile fname file_path))))"

text \<open>Lines 230 and 231: the workflow's name, from the request's name and the file's.\<close>

definition batch_workflow_name ::
  "runtime \<Rightarrow> string \<Rightarrow> (string \<rightharpoonup> string) \<Rightarrow> string result" where
  "batch_workflow_name R rname file_info =
     (case getitem file_info ''filename'' of
        Inl e \<Rightarrow> Inl e
      | Inr fname \<Rightarrow>
          (let workflow_type = (if contains ''wi'' (str_lower R fname) then ''WI'' else ''QC'')
           in Inr (rname @ '' - '' @ workflow_type @ '' - '' @ fname)))"

text \<open>
  The \<^verbatim>\<open>for\<close> loop of lines 218 to 239 over the files still to process; \<open>ids\<close> is
  \<^verbatim>\<open>workflow_ids\<close> so far. An exception leaves the loop at once.
\<close>

fun start_batch ::
  "runtime \<Rightarrow> (start_workflow_call \<Rightarrow> 'w \<Rightarrow> py_exception option \<times> 'w) \<Rightarrow> string \<Rightarrow>
     (string \<rightharpoonup> string) list \<Rightarrow> string list \<Rightarrow> 'w world \<Rightarrow> string list result \<times> 'w world" where
  "start_batch R ws_start_workflow rname [] ids w = (Inr ids, w)"
| "start_batch R ws_start_workflow rname (file_info # rest) ids w =
     (case new_uuid R w of
        (wid, w1) \<Rightarrow>
          (case mock_upload_file R file_info of
             Inl e \<Rightarrow> (Inl e, w1)
           | Inr wi_doc \<Rightarrow>
               (case batch_workflow_name R rname file_info of
                  Inl e \<Rightarrow> (Inl e, w1)
                | Inr wname \<Rightarrow>
                    (case call_start_workflow ws_start_workflow
                            \<lparr>workflow_id = wid, workflow_name = wname, wi_document = wi_doc,
                             item_master = Omitted, comparison_mode = ''kb_only''\<rparr> w1 of
                       (Some e, w2) \<Rightarrow> (Inl e, w2)
                     | (None, w2) \<Rightarrow>
                         start_batch R ws_start_workflow rname rest (ids @ [wid]) w2))))"

text \<open>The body of the \<^verbatim>\<open>try\<close> block of \<^verbatim>\<open>upload_from_url\<close> (lines 211 to 245).\<close>

definition upload_from_url_try ::
  "runtime \<Rightarrow> (string \<Rightarrow> 'w \<Rightarrow> (string \<rightharpoonup> string) list result \<times> 'w) \<Rightarrow>
     (start_workflow_call \<Rightarrow> 'w \<Rightarrow> py_exception option \<times> 'w) \<Rightarrow>
     URLUploadRequest \<Rightarrow> 'w world \<Rightarrow> response result \<times> 'w world" where
  "upload_from_url_try R ws_download_files_from_cloud ws_start_workflow request w =
     (case ws_download_files_from_cloud (url request) (service w) of
        (Inl e, s') \<Rightarrow> (Inl e, w\<lparr>service := s'\<rparr>)
      | (Inr downloaded_files, s') \<Rightarrow>
          if downloaded_files = []
          then (Inl (HTTPException 400 ''Could not retrieve files from the provided URL.''),
                w\<lparr>service := s'\<rparr>)
          else
            (case start_batch R ws_start_workflow (request_name request) downloaded_files []
                    (w\<lparr>service := s'\<rparr>) of
               (Inl e, w') \<Rightarrow> (Inl e, w')
             | (Inr workflow_ids, w') \<Rightarrow>
                 (Inr (JSONResponse 200 (JDict
                    [(''success'', JBool True),
                     (''workflow_ids'', JList (map JStr workflow_ids)),
                     (''message'', JStr (''Started batch processing for ''
                        @ str_nat (length workflow_ids) @ '' documents.''))])), w')))"

text \<open>
  \<^verbatim>\<open>upload_from_url\<close> with its only handler (lines 246 and 247): every exception of the
  body, an \<^verbatim>\<open>HTTPException\<close> included, becomes a 500.
\<close>

definition upload_from_url ::
  "runtime \<Rightarrow> (string \<Rightarrow> 'w \<Rightarrow> (string \<rightharpoonup> string) list result \<times> 'w) \<Rightarrow>
     (start_workflow_call \<Rightarrow> 'w \<Rightarrow> py_exception option \<times> 'w) \<Rightarrow>
     URLUploadRequest \<Rightarrow> 'w world \<Rightarrow> response result \<times> 'w world" where
  "upload_from_url R ws_download_files_from_cloud ws_start_workflow request w =
     (case upload_from_url_try R ws_download_files_from_cloud ws_start_workflow request w of
        (Inl e, w') \<Rightarrow>
          (Inl (HTTPException 500 (''Failed to start batch workflow: '' @ str_exc R e)), w')
      | (Inr r, w') \<Rightarrow> (Inr r, w'))"

section \<open>Workflow results: \<^verbatim>\<open>/api/autonomous/workflow/{workflow_id}/results\<close>\<close>

text \<open>
  The request body \<^verbatim>\<open>UpdateResultsRequest\<close>, as pydantic hands it over once it has
  validated it (a list of dicts and a dict), and \<^verbatim>\<open>request.dict()\<close>.
\<close>

record UpdateResultsRequest =
  matches :: "(string \<times> json) list list"
  summary :: "(string \<times> json) list"

definition request_dict :: "UpdateResultsRequest \<Rightarrow> json" where
  "request_dict request =
     JDict [(''matches'', JList (map JDict (matches request))),
            (''summary'', JDict (summary request))]"





text \<open>\<^verbatim>\<open>update_workflow_results\<close> (lines 268 to 275): every exception becomes a 500.\<close>

definition update_workflow_results ::
  "runtime \<Rightarrow> (string \<Rightarrow> json \<Rightarrow> 'w \<Rightarrow> py_exception option \<times> 'w) \<Rightarrow> string \<Rightarrow>
     UpdateResultsRequest \<Rightarrow> 'w \<Rightarrow> response result \<times> 'w" where
  "update_workflow_results R ws_update_workflow_results wid request s =
     (case ws_update_workflow_results wid (request_dict request) s of
        (Some e, s') \<Rightarrow> (Inl (HTTPException 500 (''Failed to update results: '' @ str_exc R e)), s')
      | (None, s') \<Rightarrow>
          (Inr (JSONResponse 200 (JDict
             [(''success'', JBool True),
              (''message'', JStr ''Results updated successfully'')])), s'))"

section \<open>Knowledge base: \<^verbatim>\<open>/api/knowledge-base\<close>\<close>

text \<open>
  \<^verbatim>\<open>ItemApprovalRequest\<close> comes from \<^verbatim>\<open>models\<close>, which is not among the sources; the
  handlers read its \<^verbatim>\<open>item_ids\<close> and, for the log line only, its \<^verbatim>\<open>workflow_id\<close>
  (\<open>origin\<close> here). The type of an item id is left open. Logging is not modelled.
\<close>

record 'i ItemApprovalRequest =
  item_ids :: "'i list"
  origin :: "string option"

text \<open>
  \<^verbatim>\<open>approve_knowledge_base_item\<close> (lines 134 to 143): the service's result goes into the
  answer as \<^verbatim>\<open>approved_count\<close>; every exception becomes a 500.
\<close>

definition approve_knowledge_base_item ::
  "runtime \<Rightarrow> ('i list \<Rightarrow> 'k \<Rightarrow> nat result \<times> 'k) \<Rightarrow> 'i ItemApprovalRequest \<Rightarrow> 'k \<Rightarrow>
     response result \<times> 'k" where
  "approve_knowledge_base_item R kb_approve_items request k =
     (case kb_approve_items (item_ids request) k of
        (Inl e, k') \<Rightarrow> (Inl (HTTPException 500 (str_exc R e)), k')
      | (Inr result, k') \<Rightarrow>
          (Inr (JSONResponse 200 (JDict
             [(''success'', JBool True),
              (''approved_count'', JInt (int result))])), k'))"

text \<open>\<^verbatim>\<open>delete_knowledge_base_item\<close> (lines 156 to 163): every exception becomes a 500.\<close>

definition delete_knowledge_base_item ::
  "runtime \<Rightarrow> (int \<Rightarrow> 'k \<Rightarrow> py_exception option \<times> 'k) \<Rightarrow> int \<Rightarrow> 'k \<Rightarrow> response result \<times> 'k" where
  "delete_knowledge_base_item R kb_delete_item item_id k =
     (case kb_delete_item item_id k of
        (Some e, k') \<Rightarrow> (Inl (HTTPException 500 (str_exc R e)), k')
      | (None, k') \<Rightarrow>
          (Inr (JSONResponse 200 (JDict
             [(''success'', JBool True),
              (''message'', JStr ''Item deleted successfully'')])), k'))"

text \<open>
  The HTTP status the client sees: the response's own, or the \<^verbatim>\<open>HTTPException\<close>'s, which
  FastAPI answers with that status and the detail. An exception of another class would
  leave the handler as a 500.
\<close>

fun http_status :: "response result \<Rightarrow> nat" where
  "http_status (Inr (JSONResponse c body)) = c"
| "http_status (Inl (HTTPException c d)) = c"
| "http_status (Inl (PyError cls msg)) = 500"

section \<open>The services, from the specification\<close>

text \<open>
  The package \<^verbatim>\<open>services\<close> is not among the sources. Where a property is decided by a
  service and not by a handler, the service is modelled from the specification
  (sections 3, 4.3 and 4.4), each definition saying so.
\<close>

subsection \<open>Workflow orchestrator\<close>

text \<open>
  Modelled from the spec: the states of a workflow (section 4.4) and the events that
  move it; neither is declared in the sources.
\<close>

datatype wf_status = CREATED | EXTRACTING | MATCHING | AWAITING_REVIEW | COMPLETED | FAILED

datatype wf_event =
    PipelineStarted
  | ExtractionDone
  | MatchingDone
  | ResultsSubmitted
  | StageFailed

text \<open>
  Modelled from the spec: the orchestrator's state machine is not in the sources. The
  transitions are those of section 4.4: workflow start, successful extraction, match
  completion, a submitted result set (\<^verbatim>\<open>updateResults\<close>, accepted in \<^verbatim>\<open>AWAITING_REVIEW\<close>
  and in \<^verbatim>\<open>COMPLETED\<close>), and a failure from any state that is not terminal. \<open>None\<close>: the
  event is refused in that state.
\<close>

fun transition :: "wf_status \<Rightarrow> wf_event \<Rightarrow> wf_status option" where
  "transition CREATED PipelineStarted = Some EXTRACTING"
| "transition EXTRACTING ExtractionDone = Some MATCHING"
| "transition MATCHING MatchingDone = Some AWAITING_REVIEW"
| "transition AWAITING_REVIEW ResultsSubmitted = Some COMPLETED"
| "transition COMPLETED ResultsSubmitted = Some COMPLETED"
| "transition s StageFailed = (if s = COMPLETED \<or> s = FAILED then None else Some FAILED)"
| "transition s e = None"

text \<open>
  Modelled from the spec: the status of a workflow after a sequence of events, a refused
  event leaving it as it is.
\<close>

fun run :: "wf_status \<Rightarrow> wf_event list \<Rightarrow> wf_status" where
  "run s [] = s"
| "run s (e # es) = (case transition s e of None \<Rightarrow> run s es | Some t \<Rightarrow> run t es)"

text \<open>
  Modelled from the spec: the place of a status in the order of the pipeline (section
  4.4); \<^verbatim>\<open>FAILED\<close>, which nothing leaves, comes last.
\<close>

fun position :: "wf_status \<Rightarrow> nat" where
  "position CREATED = 0"
| "position EXTRACTING = 1"
| "position MATCHING = 2"
| "position AWAITING_REVIEW = 3"
| "position COMPLETED = 4"
| "position FAILED = 5"

text \<open>
  Modelled from the spec: the Workflow record of section 3, as far as results are
  concerned. \<open>wf_results\<close> is the stored payload \<^verbatim>\<open>{matches, summary}\<close>; \<open>wf_edited\<close> marks,
  entry by entry, the matches a client has changed; \<open>wf_error\<close> is the persisted failure
  reason.
\<close>

record workflow =
  wf_name :: string
  wf_mode :: string
  wf_status :: wf_status
  wf_results :: "json option"
  wf_edited :: "bool list"
  wf_error :: "string option"

text \<open>
  Modelled from the spec: the \<^verbatim>\<open>matches\<close> list of a results payload
  \<^verbatim>\<open>{matches, summary}\<close> (section 6).
\<close>

fun matches_of :: "json \<Rightarrow> json list" where
  "matches_of (JDict kvs) = (case map_of kvs ''matches'' of Some (JList ms) \<Rightarrow> ms | _ \<Rightarrow> [])"
| "matches_of j = []"

text \<open>
  Modelled from the spec: "marking edited entries". An entry is marked when it differs
  from the stored entry at its place, or has none. The marks are kept beside the
  payload, which is stored as submitted.
\<close>

fun edited_marks :: "json list \<Rightarrow> json list \<Rightarrow> bool list" where
  "edited_marks old [] = []"
| "edited_marks [] (m # ms) = True # edited_marks [] ms"
| "edited_marks (p # ps) (m # ms) = (p \<noteq> m) # edited_marks ps ms"

text \<open>
  Modelled from the spec: \<^verbatim>\<open>WorkflowService.update_workflow_results\<close> is not in the
  sources. Section 4.4: \<^verbatim>\<open>updateResults\<close> fails if the workflow is not in
  \<^verbatim>\<open>AWAITING_REVIEW\<close> or \<^verbatim>\<open>COMPLETED\<close> (a \<^verbatim>\<open>ConflictError\<close>, section 7; a \<^verbatim>\<open>NotFoundError\<close>
  for an unknown id); otherwise it overwrites the stored matches and summary with the
  client's, marks the edited entries and completes the workflow.
\<close>

definition orchestrator_update_results ::
  "string \<Rightarrow> json \<Rightarrow> (string \<rightharpoonup> workflow) \<Rightarrow> py_exception option \<times> (string \<rightharpoonup> workflow)" where
  "orchestrator_update_results wid payload store =
     (case store wid of
        None \<Rightarrow> (Some (PyError ''NotFoundError'' (''unknown workflow '' @ wid)), store)
      | Some flow \<Rightarrow>
          (case transition (wf_status flow) ResultsSubmitted of
             None \<Rightarrow>
               (Some (PyError ''ConflictError'' (''results cannot be updated in this state'')),
                store)
           | Some t \<Rightarrow>
               (None, store(wid \<mapsto> flow\<lparr>wf_status := t, wf_results := Some payload,
                  wf_edited := edited_marks
                    (case wf_results flow of None \<Rightarrow> [] | Some old \<Rightarrow> matches_of old)
                    (matches_of payload)\<rparr>))))"


subsection \<open>Knowledge base store\<close>

text \<open>
  Modelled from the spec: the approval status of a knowledge base item (section 3);
  it is not declared in the sources.
\<close>

datatype approval = Pending | Approved | Rejected

text \<open>
  Modelled from the spec: the KnowledgeBaseItem of section 3 (description and approval
  status; the store maps an item's id to it).
\<close>

record kb_item =
  item_description :: string
  item_status :: approval

text \<open>
  Modelled from the spec: \<^verbatim>\<open>KnowledgeBaseService.approve_items\<close> is not in the sources.
  Section 4.3: it sets the status of the items that are pending to approved and counts
  them; an id that is not found or not pending is skipped and not counted. The ids are
  taken in order, \<open>n\<close> being the count so far.
\<close>

fun approve_loop :: "'i list \<Rightarrow> nat \<Rightarrow> ('i \<rightharpoonup> kb_item) \<Rightarrow> nat \<times> ('i \<rightharpoonup> kb_item)" where
  "approve_loop [] n kb = (n, kb)"
| "approve_loop (i # ids) n kb =
     (case kb i of
        None \<Rightarrow> approve_loop ids n kb
      | Some it \<Rightarrow>
          if item_status it = Pending
          then approve_loop ids (Suc n) (kb(i \<mapsto> it\<lparr>item_status := Approved\<rparr>))
          else approve_loop ids n kb)"

text \<open>
  Modelled from the spec: \<^verbatim>\<open>approveItems(ids)\<close>, the count actually transitioned; it
  raises nothing.
\<close>

definition approve_items :: "'i list \<Rightarrow> ('i \<rightharpoonup> kb_item) \<Rightarrow> nat result \<times> ('i \<rightharpoonup> kb_item)" where
  "approve_items ids kb = (case approve_loop ids 0 kb of (n, kb') \<Rightarrow> (Inr n, kb'))"

text \<open>
  Modelled from the spec: \<^verbatim>\<open>KnowledgeBaseService.delete_item\<close> is not in the sources.
  Section 4.3: \<^verbatim>\<open>deleteItem(id)\<close> fails with \<^verbatim>\<open>NotFoundError\<close> if the item is absent.
\<close>

definition delete_item :: "int \<Rightarrow> (int \<rightharpoonup> kb_item) \<Rightarrow> py_exception option \<times> (int \<rightharpoonup> kb_item)" where
  "delete_item item_id kb =
     (case kb item_id of
        None \<Rightarrow> (Some (PyError ''NotFoundError'' ''item not found''), kb)
      | Some it \<Rightarrow> (None, kb(item_id := None)))"

section \<open>Concrete environments\<close>

text \<open>\<^verbatim>\<open>str.lower\<close> as it is on ASCII text; other bytes are left as they are.\<close>

definition ascii_lower_char :: "char \<Rightarrow> char" where
  "ascii_lower_char c =
     (case map_of (zip ''ABCDEFGHIJKLMNOPQRSTUVWXYZ'' ''abcdefghijklmnopqrstuvwxyz'') c of
        None \<Rightarrow> c
      | Some l \<Rightarrow> l)"

definition ascii_lower :: "string \<Rightarrow> string" where
  "ascii_lower s = map ascii_lower_char s"

text \<open>
  Stand-ins on which the handlers are run at concrete inputs: a runtime whose \<open>k\<close>-th
  UUID is \<^verbatim>\<open>uuid-k\<close>, where every file opens, an \<^verbatim>\<open>HTTPException\<close> prints as Starlette
  prints it today (\<^verbatim>\<open>"{status_code}: {detail}"\<close>), file names are ASCII and \<^verbatim>\<open>json.dumps\<close>
  words its \<^verbatim>\<open>ValueError\<close> as CPython's encoder does; the same runtime with a UUID
  source that repeats itself; a workflow service that counts the workflows it has
  started; one whose \<^verbatim>\<open>start_workflow\<close> raises; a cloud download that returns a given
  list of files.
\<close>

definition stub_runtime :: runtime where
  "stub_runtime =
     \<lparr>uuid4 = (\<lambda>k. ''uuid-'' @ str_nat k),
      open_rb = (\<lambda>p. None),
      str_http = (\<lambda>c d. str_nat c @ '': '' @ d),
      str_lower = ascii_lower,
      str_float_error = (\<lambda>f. ''Out of range float values are not JSON compliant'')\<rparr>"

definition repeating_runtime :: runtime where
  "repeating_runtime = stub_runtime\<lparr>uuid4 := (\<lambda>k. ''uuid-0'')\<rparr>"

definition counting_start :: "start_workflow_call \<Rightarrow> nat \<Rightarrow> py_exception option \<times> nat" where
  "counting_start c s = (None, Suc s)"

definition failing_start :: "start_workflow_call \<Rightarrow> nat \<Rightarrow> py_exception option \<times> nat" where
  "failing_start c s = (Some (PyError ''RuntimeError'' ''database is locked''), s)"

definition cloud_returning ::
  "(string \<rightharpoonup> string) list \<Rightarrow> string \<Rightarrow> nat \<Rightarrow> (string \<rightharpoonup> string) list result \<times> nat" where
  "cloud_returning files u s = (Inr files, s)"

definition two_files :: "(string \<rightharpoonup> string) list" where
  "two_files =
     [[''filename'' \<mapsto> ''WI_7.pdf'', ''path'' \<mapsto> ''/tmp/WI_7.pdf''],
      [''filename'' \<mapsto> ''qc.pdf'', ''path'' \<mapsto> ''/tmp/qc.pdf'']]"

definition batch_request :: URLUploadRequest where
  "batch_request = \<lparr>url = ''https://drive.example/folder'', request_name = ''batch''\<rparr>"

definition fresh_world :: "nat world" where
  "fresh_world = \<lparr>uuid_draws = 0, started = [], service = 0\<rparr>"

section \<open>Properties of a batch\<close>




text \<open>A call of \<^verbatim>\<open>start_workflow\<close> in \<^verbatim>\<open>kb_only\<close> mode that hands over no item master.\<close>

definition kb_only_call :: "start_workflow_call \<Rightarrow> bool" where
  "kb_only_call c = (comparison_mode c = ''kb_only'' \<and> item_master c = Omitted)"

section \<open>Concrete service states\<close>

text \<open>
  States of the modelled services on which the handlers are run: a workflow that is
  still extracting, a workflow that awaits review with one fuzzy match stored, a
  client's edit of that result set, an edit whose confidence is not a number, a
  knowledge base that holds item 1 only, and the knowledge base of the specification's
  scenario D (item A pending, item B already rejected).
\<close>

definition extracting_store :: "string \<rightharpoonup> workflow" where
  "extracting_store =
     [''wf-1'' \<mapsto> \<lparr>wf_name = ''line 4'', wf_mode = ''kb_only'', wf_status = EXTRACTING,
        wf_results = None, wf_edited = [], wf_error = None\<rparr>]"

definition review_store :: "string \<rightharpoonup> workflow" where
  "review_store =
     [''wf-2'' \<mapsto> \<lparr>wf_name = ''line 4'', wf_mode = ''kb_only'', wf_status = AWAITING_REVIEW,
        wf_results = Some (JDict [(''matches'', JList [JDict [(''id'', JStr ''R100''),
           (''classification'', JStr ''fuzzy'')]]), (''summary'', JDict [(''fuzzy'', JInt 1)])]),
        wf_edited = [False], wf_error = None\<rparr>]"

definition edited_request :: UpdateResultsRequest where
  "edited_request =
     \<lparr>matches = [[(''id'', JStr ''R100''), (''classification'', JStr ''exact'')]],
      summary = [(''exact'', JInt 1)]\<rparr>"


definition one_item_store :: "int \<rightharpoonup> kb_item" where
  "one_item_store =
     [1 \<mapsto> \<lparr>item_description = ''10k resistor'', item_status = Approved\<rparr>]"

definition scenario_d :: "string \<rightharpoonup> kb_item" where
  "scenario_d =
     [''A'' \<mapsto> \<lparr>item_description = ''10k resistor'', item_status = Pending\<rparr>,
      ''B'' \<mapsto> \<lparr>item_description = ''1uF capacitor'', item_status = Rejected\<rparr>]"

section \<open>Contracts of the services\<close>

text \<open>
  What the specification asks of \<^verbatim>\<open>updateResults\<close> (section 4.4), for any workflow
  service: where \<open>status_of\<close> reads a workflow's status in the service's state, the update
  of a workflow that is in neither \<^verbatim>\<open>AWAITING_REVIEW\<close> nor \<^verbatim>\<open>COMPLETED\<close> raises.
\<close>

definition refuses_outside_review ::
  "(string \<Rightarrow> json \<Rightarrow> 'w \<Rightarrow> py_exception option \<times> 'w) \<Rightarrow> ('w \<Rightarrow> string \<Rightarrow> wf_status option) \<Rightarrow>
     bool" where
  "refuses_outside_review ws_update_workflow_results status_of =
     (\<forall>wid payload s st.
        status_of s wid = Some st \<and> st \<noteq> AWAITING_REVIEW \<and> st \<noteq> COMPLETED \<longrightarrow>
        fst (ws_update_workflow_results wid payload s) \<noteq> None)"

text \<open>
  What the specification asks of \<^verbatim>\<open>deleteItem\<close> (section 4.3), for any knowledge base
  service: where \<open>holds k i\<close> says that the state \<open>k\<close> has an item \<open>i\<close>, deleting an item
  that is absent raises a \<^verbatim>\<open>NotFoundError\<close>.
\<close>

definition raises_not_found ::
  "(int \<Rightarrow> 'k \<Rightarrow> py_exception option \<times> 'k) \<Rightarrow> ('k \<Rightarrow> int \<Rightarrow> bool) \<Rightarrow> bool" where
  "raises_not_found kb_delete_item holds =
     (\<forall>item_id k. \<not> holds k item_id \<longrightarrow>
        (\<exists>msg. fst (kb_delete_item item_id k) = Some (PyError ''NotFoundError'' msg)))"

text \<open>An item the store of the modelled knowledge base has.\<close>

definition holds_item :: "(int \<rightharpoonup> kb_item) \<Rightarrow> int \<Rightarrow> bool" where
  "holds_item kb item_id = (kb item_id \<noteq> None)"

text \<open>The status of a workflow in the store of the modelled orchestrator.\<close>

definition stored_status :: "(string \<rightharpoonup> workflow) \<Rightarrow> string \<Rightarrow> wf_status option" where
  "stored_status store wid = map_option wf_status (store wid)"

section \<open>Properties of the knowledge base\<close>

text \<open>An item the store holds as pending.\<close>

definition pending_in :: "('i \<rightharpoonup> kb_item) \<Rightarrow> 'i \<Rightarrow> bool" where
  "pending_in kb i = (case kb i of None \<Rightarrow> False | Some it \<Rightarrow> item_status it = Pending)"

text \<open>
  The store once the pending items among \<open>ids\<close> are approved: they change their status,
  and nothing else changes.
\<close>

definition approved_by :: "'i list \<Rightarrow> ('i \<rightharpoonup> kb_item) \<Rightarrow> ('i \<rightharpoonup> kb_item)" where
  "approved_by ids kb =
     (\<lambda>i. if i \<in> set ids \<and> pending_in kb i
          then map_option (\<lambda>it. it\<lparr>item_status := Approved\<rparr>) (kb i)
          else kb i)"

section \<open>Verification: single upload\<close>

text \<open>
  C1. A call of \<^verbatim>\<open>upload_documents\<close> with \<^verbatim>\<open>comparison_mode = 'full'\<close> and no item master
  raises \<^verbatim>\<open>HTTPException(400, 'Item Master is required for full comparison mode')\<close> and
  leaves the world as it was: no UUID has been drawn, \<^verbatim>\<open>start_workflow\<close> has not been
  called and the service's state is unchanged. (Were the required \<^verbatim>\<open>wi_document\<close> falsy,
  the answer would be a 400 all the same, with the text of the check before.)
\<close>

theorem upload_documents_full_requires_item_master:
  "upload_documents R ws_start_workflow (Some doc) name None ''full'' w =
     (Inl (HTTPException 400 ''Item Master is required for full comparison mode''), w)
   \<and> (\<exists>d. upload_documents R ws_start_workflow wi_doc name None ''full'' w =
          (Inl (HTTPException 400 d), w))"
  by (cases wi_doc) (simp_all add: upload_documents_def upload_documents_try_def)

section \<open>Verification: batch upload\<close>

lemma call_start_workflow_started:
  "call_start_workflow ws_start_workflow c w = (r, w') \<Longrightarrow>
     started w' = started w @ [c] \<and> uuid_draws w' = uuid_draws w"
  by (auto simp: call_start_workflow_def split: prod.splits)

lemma start_batch_kb_only:
  "start_batch R ws rname files ids w = (r, w') \<Longrightarrow>
     \<exists>cs. started w' = started w @ cs \<and> list_all kb_only_call cs"
proof (induction files arbitrary: ids w)
  case Nil
  then show ?case by simp
next
  case (Cons fi rest)
  show ?case
  proof (cases "mock_upload_file R fi")
    case (Inl e)
    with Cons.prems have "started w' = started w @ []" by (auto simp: new_uuid_def)
    then show ?thesis by force
  next
    case doc: (Inr d)
    show ?thesis
    proof (cases "batch_workflow_name R rname fi")
      case (Inl e)
      with Cons.prems doc have "started w' = started w @ []" by (auto simp: new_uuid_def)
      then show ?thesis by force
    next
      case nm: (Inr wname)
      define c where "c = \<lparr>workflow_id = uuid4 R (uuid_draws w), workflow_name = wname,
         wi_document = d, item_master = Omitted, comparison_mode = ''kb_only''\<rparr>"
      define w1 where "w1 = w\<lparr>uuid_draws := Suc (uuid_draws w)\<rparr>"
      obtain r2 w2 where cs: "call_start_workflow ws c w1 = (r2, w2)"
        by (cases "call_start_workflow ws c w1")
      from call_start_workflow_started[OF cs]
      have st: "started w2 = started w @ [c]" by (simp add: w1_def)
      have kb: "kb_only_call c" by (simp add: kb_only_call_def c_def)
      show ?thesis
      proof (cases r2)
        case None
        with Cons.prems doc nm cs
        have "start_batch R ws rname rest (ids @ [uuid4 R (uuid_draws w)]) w2 = (r, w')"
          by (simp add: new_uuid_def c_def w1_def)
        from Cons.IH[OF this] obtain cs' where
          "started w' = started w2 @ cs'" "list_all kb_only_call cs'" by blast
        with st kb have "started w' = started w @ (c # cs') \<and> list_all kb_only_call (c # cs')"
          by simp
        then show ?thesis by blast
      next
        case (Some e)
        with Cons.prems doc nm cs have "w' = w2"
          by (simp add: new_uuid_def c_def w1_def)
        with st kb have "started w' = started w @ [c] \<and> list_all kb_only_call [c]" by simp
        then show ?thesis by blast
      qed
    qed
  qed
qed

text \<open>
  C10. Whatever the request, the downloaded files and the services do, every call of
  \<^verbatim>\<open>start_workflow\<close> that \<^verbatim>\<open>upload_from_url\<close> makes has \<^verbatim>\<open>comparison_mode = 'kb_only'\<close> and
  passes no item master: the calls recorded after the handler are those recorded before
  it, followed by calls of that kind only.
\<close>

theorem upload_from_url_kb_only:
  "\<exists>cs. started (snd (upload_from_url R ws_download ws_start request w)) = started w @ cs
        \<and> list_all kb_only_call cs"
proof (cases "ws_download (url request) (service w)")
  case (Pair d s')
  show ?thesis
  proof (cases d)
    case (Inl e)
    with Pair show ?thesis by (simp add: upload_from_url_def upload_from_url_try_def)
  next
    case (Inr files)
    show ?thesis
    proof (cases "files = []")
      case True
      with Pair Inr show ?thesis by (simp add: upload_from_url_def upload_from_url_try_def)
    next
      case False
      obtain r w' where sb:
        "start_batch R ws_start (request_name request) files [] (w\<lparr>service := s'\<rparr>) = (r, w')"
        by (cases "start_batch R ws_start (request_name request) files [] (w\<lparr>service := s'\<rparr>)")
      from start_batch_kb_only[OF sb] obtain cs where
        cs: "started w' = started w @ cs" "list_all kb_only_call cs" by auto
      from Pair Inr False sb have "snd (upload_from_url R ws_download ws_start request w) = w'"
        by (cases r) (simp_all add: upload_from_url_def upload_from_url_try_def)
      with cs show ?thesis by auto
    qed
  qed
qed

text \<open>The handlers on the concrete environments.\<close>

lemmas batch_eval =
  upload_from_url_def upload_from_url_try_def stub_runtime_def str_nat.simps
  two_files_def new_uuid_def mock_upload_file_def getitem_def batch_workflow_name_def
  call_start_workflow_def ascii_lower_def ascii_lower_char_def batch_request_def fresh_world_def
  cloud_returning_def counting_start_def failing_start_def repeating_runtime_def

lemma two_files_run:
  "upload_from_url stub_runtime (cloud_returning two_files) counting_start batch_request fresh_world =
   (Inr (JSONResponse 200 (JDict
      [(''success'', JBool True),
       (''workflow_ids'', JList [JStr ''uuid-0'', JStr ''uuid-1'']),
       (''message'', JStr ''Started batch processing for 2 documents.'')])),
    \<lparr>uuid_draws = 2,
     started =
       [\<lparr>workflow_id = ''uuid-0'', workflow_name = ''batch - WI - WI_7.pdf'',
         wi_document = MockUploadFile ''WI_7.pdf'' ''/tmp/WI_7.pdf'',
         item_master = Omitted, comparison_mode = ''kb_only''\<rparr>,
        \<lparr>workflow_id = ''uuid-1'', workflow_name = ''batch - QC - qc.pdf'',
         wi_document = MockUploadFile ''qc.pdf'' ''/tmp/qc.pdf'',
         item_master = Omitted, comparison_mode = ''kb_only''\<rparr>],
     service = 2\<rparr>)"
  by (simp add: batch_eval)

theorem upload_from_url_kb_only_witness:
  "\<exists>cs. started (snd (upload_from_url stub_runtime (cloud_returning two_files) counting_start
            batch_request fresh_world)) = started fresh_world @ cs
        \<and> list_all kb_only_call cs \<and> length cs = 2"
proof -
  from upload_from_url_kb_only[of stub_runtime "cloud_returning two_files" counting_start
      batch_request fresh_world]
  obtain cs where cs: "started (snd (upload_from_url stub_runtime (cloud_returning two_files)
      counting_start batch_request fresh_world)) = started fresh_world @ cs"
    "list_all kb_only_call cs" by blast
  have "started fresh_world = []" by (simp add: fresh_world_def)
  with cs(1) have "length cs = 2" unfolding two_files_run by auto
  with cs show ?thesis by blast
qed








text \<open>
  C2. When the cloud download returns no file, \<^verbatim>\<open>upload_from_url\<close> starts no workflow, but
  the \<^verbatim>\<open>HTTPException(400, 'Could not retrieve files from the provided URL.')\<close> it raises
  is caught by its own \<^verbatim>\<open>except Exception\<close> and leaves the handler as a 500 whose detail
  quotes the text of the 400.
\<close>

theorem upload_from_url_empty_download_is_500:
  assumes "ws_download (url request) (service w) = (Inr [], s')"
  shows "upload_from_url R ws_download ws_start request w =
           (Inl (HTTPException 500 (''Failed to start batch workflow: ''
              @ str_http R 400 ''Could not retrieve files from the provided URL.'')),
            w\<lparr>service := s'\<rparr>)"
  using assms by (simp add: upload_from_url_def upload_from_url_try_def)

theorem upload_from_url_empty_download_is_500_witness:
  "upload_from_url stub_runtime (cloud_returning []) counting_start batch_request fresh_world =
     (Inl (HTTPException 500
        ''Failed to start batch workflow: 400: Could not retrieve files from the provided URL.''),
      fresh_world)"
proof -
  have "cloud_returning [] (url batch_request) (service fresh_world) = (Inr [], 0)"
    by (simp add: cloud_returning_def fresh_world_def)
  then have "upload_from_url stub_runtime (cloud_returning []) counting_start batch_request
      fresh_world =
        (Inl (HTTPException 500 (''Failed to start batch workflow: ''
           @ str_http stub_runtime 400 ''Could not retrieve files from the provided URL.'')),
         fresh_world\<lparr>service := 0\<rparr>)"
    by (rule upload_from_url_empty_download_is_500)
  then show ?thesis by (simp add: stub_runtime_def str_nat.simps fresh_world_def)
qed

section \<open>Verification: how failures of a service are surfaced\<close>

lemma update_workflow_results_statuses:
  "http_status (fst (update_workflow_results R ws_update wid request s)) = 200
   \<or> http_status (fst (update_workflow_results R ws_update wid request s)) = 500"
  by (cases "ws_update wid (request_dict request) s")
     (auto simp: update_workflow_results_def split: option.splits)

lemma orchestrator_update_results_conflict:
  assumes "store wid = Some flow"
      and "wf_status flow \<noteq> AWAITING_REVIEW" and "wf_status flow \<noteq> COMPLETED"
  shows "orchestrator_update_results wid payload store =
           (Some (PyError ''ConflictError'' ''results cannot be updated in this state''), store)"
proof -
  from assms(2,3) have "transition (wf_status flow) ResultsSubmitted = None"
    by (cases "wf_status flow") simp_all
  with assms(1) show ?thesis by (simp add: orchestrator_update_results_def)
qed

lemma orchestrator_refuses_outside_review:
  "refuses_outside_review orchestrator_update_results stored_status"
  unfolding refuses_outside_review_def stored_status_def
  by (auto simp: orchestrator_update_results_conflict)

text \<open>
  C4, as amended. Whenever \<^verbatim>\<open>update_workflow_results\<close> is called for a workflow that is in
  neither \<^verbatim>\<open>AWAITING_REVIEW\<close> nor \<^verbatim>\<open>COMPLETED\<close>, the operation fails, the workflow service
  refusing it as section 4.4 asks of it, and that failure reaches the caller as an
  \<^verbatim>\<open>HTTPException\<close> with status 500 and detail \<^verbatim>\<open>'Failed to update results: '\<close> followed
  by the error's text: an internal server error, not a conflict. Whatever the service
  does, the handler answers 200 or 500 and has no other status. The orchestrator of the
  specification is such a service (\<open>orchestrator_refuses_outside_review\<close>).
\<close>

theorem update_workflow_results_refusal_is_500:
  assumes contract: "refuses_outside_review ws_update status_of"
      and status: "status_of s wid = Some st"
      and outside: "st \<noteq> AWAITING_REVIEW" "st \<noteq> COMPLETED"
  shows "(\<exists>e. fst (ws_update wid (request_dict request) s) = Some e
            \<and> update_workflow_results R ws_update wid request s =
                (Inl (HTTPException 500 (''Failed to update results: '' @ str_exc R e)),
                 snd (ws_update wid (request_dict request) s)))
         \<and> http_status (fst (update_workflow_results R ws_update wid request s)) = 500
         \<and> (http_status (fst (update_workflow_results R ws_update wid' request' s0)) = 200
            \<or> http_status (fst (update_workflow_results R ws_update wid' request' s0)) = 500)"
proof -
  from contract status outside
  have "fst (ws_update wid (request_dict request) s) \<noteq> None"
    unfolding refuses_outside_review_def by blast
  then obtain e s1 where raised: "ws_update wid (request_dict request) s = (Some e, s1)"
    by (cases "ws_update wid (request_dict request) s") auto
  then have "update_workflow_results R ws_update wid request s =
      (Inl (HTTPException 500 (''Failed to update results: '' @ str_exc R e)), s1)"
    by (simp add: update_workflow_results_def)
  with raised update_workflow_results_statuses[of R ws_update wid' request' s0]
  show ?thesis by simp
qed

theorem update_workflow_results_refusal_is_500_witness:
  "(\<exists>e. fst (orchestrator_update_results ''wf-1'' (request_dict edited_request)
              extracting_store) = Some e
       \<and> update_workflow_results stub_runtime orchestrator_update_results ''wf-1''
           edited_request extracting_store =
           (Inl (HTTPException 500 (''Failed to update results: '' @ str_exc stub_runtime e)),
            snd (orchestrator_update_results ''wf-1'' (request_dict edited_request)
              extracting_store)))
   \<and> http_status (fst (update_workflow_results stub_runtime orchestrator_update_results
        ''wf-1'' edited_request extracting_store)) = 500
   \<and> (http_status (fst (update_workflow_results stub_runtime orchestrator_update_results
        ''wf-2'' edited_request review_store)) = 200
      \<or> http_status (fst (update_workflow_results stub_runtime orchestrator_update_results
        ''wf-2'' edited_request review_store)) = 500)"
proof (rule update_workflow_results_refusal_is_500)
  show "refuses_outside_review orchestrator_update_results stored_status"
    by (rule orchestrator_refuses_outside_review)
  show "stored_status extracting_store ''wf-1'' = Some EXTRACTING"
    by (simp add: stored_status_def extracting_store_def)
  show "EXTRACTING \<noteq> AWAITING_REVIEW" by simp
  show "EXTRACTING \<noteq> COMPLETED" by simp
qed

text \<open>
  C4 as stated fails: for a workflow that is still extracting, the orchestrator of the
  specification refuses the update with a \<^verbatim>\<open>ConflictError\<close>, and the handler turns it
  into a 500, an internal server error.
\<close>

theorem update_workflow_results_conflict_counterexample:
  "stored_status extracting_store ''wf-1'' = Some EXTRACTING
   \<and> fst (orchestrator_update_results ''wf-1'' (request_dict edited_request) extracting_store) =
      Some (PyError ''ConflictError'' ''results cannot be updated in this state'')
   \<and> fst (update_workflow_results stub_runtime orchestrator_update_results ''wf-1''
        edited_request extracting_store) =
      Inl (HTTPException 500
        ''Failed to update results: results cannot be updated in this state'')"
  by (simp add: update_workflow_results_def orchestrator_update_results_def
      extracting_store_def stored_status_def)

lemma delete_knowledge_base_item_statuses:
  "http_status (fst (delete_knowledge_base_item R kb_delete item_id k)) = 200
   \<or> http_status (fst (delete_knowledge_base_item R kb_delete item_id k)) = 500"
  by (cases "kb_delete item_id k")
     (auto simp: delete_knowledge_base_item_def split: option.splits)

lemma delete_item_absent:
  assumes "\<not> holds_item kb item_id"
  shows "delete_item item_id kb = (Some (PyError ''NotFoundError'' ''item not found''), kb)"
  using assms by (simp add: delete_item_def holds_item_def)

lemma delete_item_raises_not_found: "raises_not_found delete_item holds_item"
  unfolding raises_not_found_def by (simp add: delete_item_absent)

text \<open>
  C5, as amended. Whenever \<^verbatim>\<open>delete_knowledge_base_item\<close> is called for an item id that
  is absent from the store, the operation fails with \<^verbatim>\<open>NotFoundError\<close>, as section 4.3
  asks of the service, and that failure reaches the caller as an \<^verbatim>\<open>HTTPException\<close> with
  status 500 and the error's text as detail, not as a not-found condition. Whatever the
  service does, the handler answers 200 or 500 and has no other status. The store of the
  specification is such a service (\<open>delete_item_raises_not_found\<close>).
\<close>

theorem delete_knowledge_base_item_absent_is_500:
  assumes contract: "raises_not_found kb_delete holds"
      and absent: "\<not> holds k item_id"
  shows "(\<exists>msg. fst (kb_delete item_id k) = Some (PyError ''NotFoundError'' msg)
            \<and> delete_knowledge_base_item R kb_delete item_id k =
                (Inl (HTTPException 500 msg), snd (kb_delete item_id k)))
         \<and> http_status (fst (delete_knowledge_base_item R kb_delete item_id k)) = 500
         \<and> (http_status (fst (delete_knowledge_base_item R kb_delete item_id' k0)) = 200
            \<or> http_status (fst (delete_knowledge_base_item R kb_delete item_id' k0)) = 500)"
proof -
  from contract absent obtain msg where
    "fst (kb_delete item_id k) = Some (PyError ''NotFoundError'' msg)"
    unfolding raises_not_found_def by blast
  then obtain k1 where raised: "kb_delete item_id k = (Some (PyError ''NotFoundError'' msg), k1)"
    by (cases "kb_delete item_id k") auto
  then have "delete_knowledge_base_item R kb_delete item_id k = (Inl (HTTPException 500 msg), k1)"
    by (simp add: delete_knowledge_base_item_def)
  with raised delete_knowledge_base_item_statuses[of R kb_delete item_id' k0]
  show ?thesis by simp
qed

theorem delete_knowledge_base_item_absent_is_500_witness:
  "(\<exists>msg. fst (delete_item 7 one_item_store) = Some (PyError ''NotFoundError'' msg)
       \<and> delete_knowledge_base_item stub_runtime delete_item 7 one_item_store =
           (Inl (HTTPException 500 msg), snd (delete_item 7 one_item_store)))
   \<and> http_status (fst (delete_knowledge_base_item stub_runtime delete_item 7 one_item_store)) = 500
   \<and> (http_status (fst (delete_knowledge_base_item stub_runtime delete_item 1 one_item_store)) = 200
      \<or> http_status (fst (delete_knowledge_base_item stub_runtime delete_item 1 one_item_store)) = 500)"
proof (rule delete_knowledge_base_item_absent_is_500)
  show "raises_not_found delete_item holds_item" by (rule delete_item_raises_not_found)
  show "\<not> holds_item one_item_store 7" by (simp add: holds_item_def one_item_store_def)
qed

text \<open>
  C5 as stated fails: deleting item 7 from a store that holds item 1 only fails with
  \<^verbatim>\<open>NotFoundError\<close> in the store of the specification, and the handler turns it into a
  500, not a 404.
\<close>

theorem delete_knowledge_base_item_absent_counterexample:
  "\<not> holds_item one_item_store 7
   \<and> fst (delete_item 7 one_item_store) = Some (PyError ''NotFoundError'' ''item not found'')
   \<and> fst (delete_knowledge_base_item stub_runtime delete_item 7 one_item_store) =
      Inl (HTTPException 500 ''item not found'')"
  by (simp add: delete_knowledge_base_item_def delete_item_def holds_item_def one_item_store_def)

section \<open>Verification: the round trip of results\<close>




section \<open>Verification: approving items\<close>

lemma pending_in_approved:
  "kb i = Some it \<Longrightarrow>
     pending_in (kb(i \<mapsto> it\<lparr>item_status := Approved\<rparr>)) j = (j \<noteq> i \<and> pending_in kb j)"
  by (simp add: pending_in_def)

lemma approve_loop_result:
  "approve_loop ids n kb = (n + card {i \<in> set ids. pending_in kb i}, approved_by ids kb)"
proof (induction ids arbitrary: n kb)
  case Nil
  show ?case by (simp add: approved_by_def)
next
  case (Cons i ids)
  show ?case
  proof (cases "pending_in kb i")
    case False
    then have same: "approve_loop (i # ids) n kb = approve_loop ids n kb"
      by (auto simp: pending_in_def split: option.splits)
    from False have "{j \<in> set (i # ids). pending_in kb j} = {j \<in> set ids. pending_in kb j}"
      by auto
    moreover from False have "approved_by (i # ids) kb = approved_by ids kb"
      by (auto simp: approved_by_def)
    ultimately show ?thesis using same Cons.IH[of n kb] by simp
  next
    case True
    then obtain it where it: "kb i = Some it" "item_status it = Pending"
      by (auto simp: pending_in_def split: option.splits)
    define kb1 where "kb1 = kb(i \<mapsto> it\<lparr>item_status := Approved\<rparr>)"
    from it have step: "approve_loop (i # ids) n kb = approve_loop ids (Suc n) kb1"
      by (simp add: kb1_def)
    have pend: "\<And>j. pending_in kb1 j = (j \<noteq> i \<and> pending_in kb j)"
      unfolding kb1_def using it(1) by (rule pending_in_approved)
    have sets: "{j \<in> set (i # ids). pending_in kb j} =
        insert i {j \<in> set ids. pending_in kb1 j}"
      using True pend by auto
    have "i \<notin> {j \<in> set ids. pending_in kb1 j}" using pend by simp
    with sets have card: "card {j \<in> set (i # ids). pending_in kb j} =
        Suc (card {j \<in> set ids. pending_in kb1 j})"
      by simp
    have maps: "approved_by ids kb1 = approved_by (i # ids) kb"
    proof
      fix j
      show "approved_by ids kb1 j = approved_by (i # ids) kb j"
        using it True pend[of j] by (auto simp: approved_by_def kb1_def)
    qed
    from step Cons.IH[of "Suc n" kb1] card maps show ?thesis by simp
  qed
qed

lemma approving_changes_item:
  assumes "item_status it = Pending"
  shows "it\<lparr>item_status := Approved\<rparr> \<noteq> it"
proof
  assume "it\<lparr>item_status := Approved\<rparr> = it"
  then have "item_status (it\<lparr>item_status := Approved\<rparr>) = item_status it" by simp
  with assms show False by simp
qed

lemma approved_by_changes:
  "{i. approved_by ids kb i \<noteq> kb i} = {i \<in> set ids. pending_in kb i}"
  by (auto simp: approved_by_def pending_in_def approving_changes_item split: option.splits)

lemma pending_in_approved_by: "\<not> pending_in (approved_by ids kb) i \<or> i \<notin> set ids"
  by (auto simp: approved_by_def pending_in_def split: option.splits)

text \<open>
  C7. \<^verbatim>\<open>approve_knowledge_base_item\<close>, on the store of the specification, answers with the
  number of ids of the request that were pending; exactly these items change (to
  approved), every other item, found or not, stays as it was. An empty list changes
  nothing and counts 0, and approving the same ids again counts 0.
\<close>

theorem approve_items_counts_transitions:
  "approve_knowledge_base_item R approve_items request kb =
     (Inr (JSONResponse 200 (JDict
        [(''success'', JBool True),
         (''approved_count'',
            JInt (int (card {i \<in> set (item_ids request). pending_in kb i})))])),
      approved_by (item_ids request) kb)
   \<and> {i. approved_by (item_ids request) kb i \<noteq> kb i} =
       {i \<in> set (item_ids request). pending_in kb i}
   \<and> approve_items [] kb = (Inr 0, kb)
   \<and> approve_items ids (approved_by ids kb) = (Inr 0, approved_by ids kb)"
proof -
  have a: "\<And>ids kb. approve_items ids (kb :: 'a \<rightharpoonup> kb_item) =
      (Inr (card {i \<in> set ids. pending_in kb i}), approved_by ids kb)"
    by (simp add: approve_items_def approve_loop_result)
  have none: "{i \<in> set ids. pending_in (approved_by ids kb) i} = {}"
    using pending_in_approved_by[of ids kb] by auto
  have again: "approved_by ids (approved_by ids kb) = approved_by ids kb"
  proof
    fix j
    show "approved_by ids (approved_by ids kb) j = approved_by ids kb j"
      using pending_in_approved_by[of ids kb j] by (auto simp: approved_by_def[of ids "approved_by ids kb"])
  qed
  have "approve_knowledge_base_item R approve_items request kb =
     (Inr (JSONResponse 200 (JDict
        [(''success'', JBool True),
         (''approved_count'',
            JInt (int (card {i \<in> set (item_ids request). pending_in kb i})))])),
      approved_by (item_ids request) kb)"
    by (simp add: approve_knowledge_base_item_def a)
  moreover have "approve_items [] kb = (Inr 0, kb)"
    by (simp add: approve_items_def)
  moreover have "approve_items ids (approved_by ids kb) = (Inr 0, approved_by ids kb)"
    by (simp add: a none again)
  ultimately show ?thesis using approved_by_changes[of "item_ids request" kb] by blast
qed

theorem approve_items_counts_transitions_witness:
  "fst (approve_knowledge_base_item stub_runtime approve_items
          \<lparr>item_ids = [''A'', ''B''], origin = None\<rparr> scenario_d) =
     Inr (JSONResponse 200 (JDict [(''success'', JBool True), (''approved_count'', JInt 1)]))
   \<and> map_option item_status (snd (approve_knowledge_base_item stub_runtime approve_items
          \<lparr>item_ids = [''A'', ''B''], origin = None\<rparr> scenario_d) ''A'') = Some Approved
   \<and> map_option item_status (snd (approve_knowledge_base_item stub_runtime approve_items
          \<lparr>item_ids = [''A'', ''B''], origin = None\<rparr> scenario_d) ''B'') = Some Rejected
   \<and> approve_items [] scenario_d = (Inr 0, scenario_d)
   \<and> fst (approve_items [''A''] (approved_by [''A''] scenario_d)) = Inr 0"
proof -
  have c: "{i \<in> set [''A'', ''B'']. pending_in scenario_d i} = {''A''}"
    by (auto simp: pending_in_def scenario_d_def)
  from approve_items_counts_transitions[of stub_runtime
      "\<lparr>item_ids = [''A'', ''B''], origin = None\<rparr>" scenario_d "[''A'']"]
  show ?thesis
    by (simp add: c) (simp add: approved_by_def pending_in_def scenario_d_def)
qed

section \<open>Verification: the workflow state machine\<close>

lemma transition_position:
  "transition s e = Some t \<Longrightarrow>
     t = FAILED \<and> s \<noteq> COMPLETED \<and> s \<noteq> FAILED
     \<or> position t = Suc (position s) \<and> t \<noteq> FAILED
     \<or> s = COMPLETED \<and> t = COMPLETED"
  by (cases s; cases e) (auto split: if_splits)

lemma transition_mono: "transition s e = Some t \<Longrightarrow> position s \<le> position t"
  by (cases s; cases e) (auto split: if_splits)

lemma run_mono: "position s \<le> position (run s es)"
proof (induction es arbitrary: s)
  case Nil
  show ?case by simp
next
  case (Cons e es)
  show ?case
  proof (cases "transition s e")
    case None
    with Cons.IH[of s] show ?thesis by simp
  next
    case (Some t)
    with transition_mono[OF Some] Cons.IH[of t] show ?thesis by simp
  qed
qed

lemma run_completed: "run COMPLETED es = COMPLETED"
proof (induction es)
  case Nil
  show ?case by simp
next
  case (Cons e es)
  then show ?case by (cases e) simp_all
qed

lemma run_failed: "run FAILED es = FAILED"
proof (induction es)
  case Nil
  show ?case by simp
next
  case (Cons e es)
  then show ?case by (cases e) simp_all
qed

text \<open>
  C8. In the state machine of the specification, whatever events arrive, the status
  never moves back in the order \<^verbatim>\<open>CREATED\<close>, \<^verbatim>\<open>EXTRACTING\<close>, \<^verbatim>\<open>MATCHING\<close>,
  \<^verbatim>\<open>AWAITING_REVIEW\<close>, \<^verbatim>\<open>COMPLETED\<close>; \<^verbatim>\<open>COMPLETED\<close> and \<^verbatim>\<open>FAILED\<close> are never left; one
  transition moves to the next pipeline state, or to \<^verbatim>\<open>FAILED\<close> from a state that is
  not terminal, or stays in \<^verbatim>\<open>COMPLETED\<close>; \<^verbatim>\<open>FAILED\<close> is reachable from every state that
  is not terminal; and the pipeline runs from \<^verbatim>\<open>CREATED\<close> to \<^verbatim>\<open>COMPLETED\<close>.
\<close>

theorem workflow_status_monotonic:
  "position s \<le> position (run s es)
   \<and> run COMPLETED es = COMPLETED
   \<and> run FAILED es = FAILED
   \<and> (transition s e = Some t \<longrightarrow>
        t = FAILED \<and> s \<noteq> COMPLETED \<and> s \<noteq> FAILED
        \<or> position t = Suc (position s) \<and> t \<noteq> FAILED
        \<or> s = COMPLETED \<and> t = COMPLETED)
   \<and> (s \<noteq> COMPLETED \<and> s \<noteq> FAILED \<longrightarrow> transition s StageFailed = Some FAILED)
   \<and> run CREATED [PipelineStarted, ExtractionDone, MatchingDone, ResultsSubmitted] = COMPLETED"
  using run_mono[of s es] run_completed[of es] run_failed[of es] transition_position[of s e t]
  by (cases s) simp_all

theorem workflow_status_monotonic_witness:
  "position MATCHING \<le> position (run MATCHING [ExtractionDone, StageFailed, MatchingDone])
   \<and> run MATCHING [ExtractionDone, StageFailed, MatchingDone] = FAILED
   \<and> transition MATCHING MatchingDone = Some AWAITING_REVIEW
   \<and> position AWAITING_REVIEW = Suc (position MATCHING)
   \<and> transition MATCHING StageFailed = Some FAILED"
  using workflow_status_monotonic[of MATCHING "[ExtractionDone, StageFailed, MatchingDone]"
      MatchingDone AWAITING_REVIEW]
  by simp

end
